theory Spec2Isabelle
  imports Main
begin

section \<open>Python exceptions\<close>

text \<open>
  The exception classes that the two modules can raise or catch.  A function that may
  raise returns the exception as a value; a function that also mutates process state
  returns the state reached when the exception left it.
\<close>

datatype exn =
    TypeError
  | ValueError
  | KeyError
  | AttributeError
  | FileExistsError
  | FileNotFoundError
  | NotADirectoryError
  | PermissionError

section \<open>xicam.core.paths\<close>

subsection \<open>Module names and their rebinding\<close>

text \<open>
  The module imports three functions from the directory-lookup library and then assigns to
  the very same names.  A module-level name is therefore bound either to a library
  function (taking the keyword argument \<^verbatim>\<open>appname\<close>) or to a string.  Calling a name
  that is bound to a string raises \<^verbatim>\<open>TypeError\<close> ('str' object is not callable).
\<close>

datatype pyname = Fn "string \<Rightarrow> string" | Str string

definition call :: "pyname \<Rightarrow> string \<Rightarrow> exn + string" where
  "call f appname = (case f of Fn g \<Rightarrow> Inr (g appname) | Str s \<Rightarrow> Inl TypeError)"

text \<open>The three functions of the library, as the import statement binds them.\<close>

record appdirs =
  appdirs_user_config_dir :: "string \<Rightarrow> string"
  appdirs_site_config_dir :: "string \<Rightarrow> string"
  appdirs_user_cache_dir :: "string \<Rightarrow> string"

text \<open>\<^verbatim>\<open>os.path.join(a, b)\<close> for a relative second component (POSIX flavour).\<close>

definition path_join :: "string \<Rightarrow> string \<Rightarrow> string" where
  "path_join a b = (if a = [] \<or> last a = CHR ''/'' then a @ b else a @ ''/'' @ b)"

text \<open>The module namespace once lines 5 to 14 have run.\<close>

record namespace =
  user_cache_dir :: pyname
  site_config_dir :: pyname
  user_config_dir :: pyname
  user_dev_dir :: string
  op_sys :: string
  user_plugin_dir :: string
  site_plugin_dir :: string

text \<open>
  Lines 1 to 14 of the module, statement by statement.  Each \<^verbatim>\<open>let\<close> that reuses a
  name is the source's assignment to that name.  The parameters are the library,
  \<^verbatim>\<open>os.path.expanduser\<close> and the value of \<^verbatim>\<open>platform.system()\<close>.
\<close>

definition paths_module :: "appdirs \<Rightarrow> (string \<Rightarrow> string) \<Rightarrow> string \<Rightarrow> exn + namespace" where
  "paths_module lib expanduser system =
    (let user_config_dir = Fn (appdirs_user_config_dir lib);
         site_config_dir = Fn (appdirs_site_config_dir lib);
         user_cache_dir = Fn (appdirs_user_cache_dir lib)
     in
     case call user_cache_dir ''xicam'' of Inl e \<Rightarrow> Inl e | Inr v5 \<Rightarrow>
    (let user_cache_dir = Str v5 in
     case call site_config_dir ''xicam'' of Inl e \<Rightarrow> Inl e | Inr v6 \<Rightarrow>
    (let site_config_dir = Str v6 in
     case call user_config_dir ''xicam'' of Inl e \<Rightarrow> Inl e | Inr v7 \<Rightarrow>
    (let user_config_dir = Str v7;
         user_dev_dir = expanduser ''~/Xi-cam/plugins'';
         op_sys = system
     in
     case (if op_sys = ''Darwin''
           then call user_cache_dir ''xicam''
           else call user_config_dir ''xicam'') of Inl e \<Rightarrow> Inl e | Inr base \<Rightarrow>
    (let user_plugin_dir = path_join base ''plugins'' in
     case call site_config_dir ''xicam'' of Inl e \<Rightarrow> Inl e | Inr site_base \<Rightarrow>
    (let site_plugin_dir = path_join site_base ''plugins'' in
     Inr \<lparr> user_cache_dir = user_cache_dir,
           site_config_dir = site_config_dir,
           user_config_dir = user_config_dir,
           user_dev_dir = user_dev_dir,
           op_sys = op_sys,
           user_plugin_dir = user_plugin_dir,
           site_plugin_dir = site_plugin_dir \<rparr>))))))"

subsection \<open>The file system and directory creation\<close>









section \<open>xicam.core.msg\<close>

subsection \<open>Values, levels and the level table\<close>

text \<open>
  The \<^verbatim>\<open>level\<close> argument is annotated \<^verbatim>\<open>int\<close>, but the body guards against a level
  that the logging library rejects, which only a string can be; both kinds of value are
  kept.  The same type serves for the message object handed to \<^verbatim>\<open>Logger.log\<close>.
\<close>

datatype pyval = PInt int | PStr string

abbreviation DEBUG :: int where "DEBUG \<equiv> 10"
abbreviation INFO :: int where "INFO \<equiv> 20"
abbreviation WARNING :: int where "WARNING \<equiv> 30"
abbreviation ERROR :: int where "ERROR \<equiv> 40"
abbreviation CRITICAL :: int where "CRITICAL \<equiv> 50"

text \<open>The dictionary \<^verbatim>\<open>levels\<close> of line 56.\<close>

definition levels :: "pyval \<rightharpoonup> string" where
  "levels = [PInt DEBUG \<mapsto> ''DEBUG'', PInt INFO \<mapsto> ''INFO'', PInt WARNING \<mapsto> ''WARNING'',
             PInt ERROR \<mapsto> ''ERROR'', PInt CRITICAL \<mapsto> ''CRITICAL'']"

text \<open>\<^verbatim>\<open>str\<close> of an integer (decimal) and of a value.\<close>

definition digit_char :: "nat \<Rightarrow> char" where
  "digit_char d = ''0123456789'' ! d"

fun str_nat :: "nat \<Rightarrow> string" where
  "str_nat n = (if n < 10 then [digit_char n] else str_nat (n div 10) @ [digit_char (n mod 10)])"

declare str_nat.simps [simp del]

definition str_int :: "int \<Rightarrow> string" where
  "str_int i = (if i < 0 then CHR ''-'' # str_nat (nat (- i)) else str_nat (nat i))"

definition str :: "pyval \<Rightarrow> string" where
  "str v = (case v of PInt i \<Rightarrow> str_int i | PStr s \<Rightarrow> s)"

text \<open>\<^verbatim>\<open>sep.join(parts)\<close>.\<close>

fun join :: "string \<Rightarrow> string list \<Rightarrow> string" where
  "join sep [] = []"
| "join sep [x] = x"
| "join sep (x # y # ys) = x @ sep @ join sep (y # ys)"

subsection \<open>Process state\<close>

text \<open>
  What the logging library keeps of one message: its numeric level, the name of the
  logger that created it, and the message text.  The root logger's file handler (set up
  by \<^verbatim>\<open>basicConfig\<close> in line 29) receives every record that a logger creates; the
  sequence of these records is the sink \<open>out_log\<close>.
\<close>

record log_record =
  levelno :: int
  logger_name :: string
  message :: string

datatype icon = Information | Warning | Critical

text \<open>
  Methods of the registered widgets.  \<open>SingleShot t c\<close> is
  \<^verbatim>\<open>QTimer.singleShot(t, c)\<close>.  A widget method is either called on the calling thread
  or handed to \<^verbatim>\<open>threads.invoke_in_main_thread\<close>.
\<close>

datatype widget_call =
    PB_show
  | PB_hide
  | PB_setRange int int
  | PB_setValue int
  | SB_showMessage string int
  | SB_clearMessage
  | Tray_show
  | Tray_showMessage string string icon int
  | Tray_hide
  | SingleShot int widget_call

datatype gui_event = Direct widget_call | Marshalled widget_call

text \<open>
  The module globals and the part of the logging library's state that the module
  changes.  A widget slot is \<open>True\<close> when some widget has been registered in it.
\<close>

record state =
  statusbar :: bool
  progressbar :: bool
  trayicon :: bool
  thread_count :: int
  threadIds :: "int \<rightharpoonup> int"
  stdch_level :: int
  logger_level :: "string \<rightharpoonup> int"
  stdch_attached :: "string set"
  out_log :: "log_record list"
  gui :: "gui_event list"

text \<open>
  What a call reads from its surroundings: whether it runs on the main thread, the
  thread identifier, the name of the calling function (\<^verbatim>\<open>inspect.stack()[1][3]\<close>) and
  the value of \<^verbatim>\<open>time.asctime()\<close>.
\<close>

record callsite =
  is_main_thread :: bool
  thread_ident :: int
  caller :: string
  asctime :: string

definition blacklist :: "string list" where
  "blacklist = [''fabio.edfimage'', ''ipykernel.inprocess.ipkernel'',
     ''pyFAI.azimuthalIntegrator'', ''traitlets'', ''fabio.openimage'', ''fabio.fabioutils'',
     ''PyQt5.uic.uiparser'', ''yapsy'', ''caproto.threading.client'', ''caproto._circuit'',
     ''caproto'']"

text \<open>
  The state after the module has been imported; the parameter says whether a
  \<^verbatim>\<open>QApplication\<close> instance existed then (lines 58 to 67).
\<close>

definition module_state :: "bool \<Rightarrow> state" where
  "module_state qapp =
    \<lparr> statusbar = False, progressbar = False, trayicon = qapp,
      thread_count = 0, threadIds = Map.empty,
      stdch_level = 0,
      logger_level = map_of (map (\<lambda>modname. (modname, ERROR)) blacklist),
      stdch_attached = {},
      out_log = [], gui = [] \<rparr>"

subsection \<open>The logging library\<close>

definition nameToLevel :: "string \<rightharpoonup> int" where
  "nameToLevel = [''CRITICAL'' \<mapsto> 50, ''FATAL'' \<mapsto> 50, ''ERROR'' \<mapsto> 40, ''WARN'' \<mapsto> 30,
                  ''WARNING'' \<mapsto> 30, ''INFO'' \<mapsto> 20, ''DEBUG'' \<mapsto> 10, ''NOTSET'' \<mapsto> 0]"

text \<open>
  \<^verbatim>\<open>logging._checkLevel\<close>: every integer is accepted as it is; a string must be a known
  level name, otherwise \<^verbatim>\<open>ValueError\<close>.
\<close>

definition checkLevel :: "pyval \<Rightarrow> exn + int" where
  "checkLevel level =
    (case level of
       PInt n \<Rightarrow> Inr n
     | PStr s \<Rightarrow> (case nameToLevel s of None \<Rightarrow> Inl ValueError | Some n \<Rightarrow> Inr n))"

definition Logger_setLevel :: "string \<Rightarrow> int \<Rightarrow> state \<Rightarrow> state" where
  "Logger_setLevel name n st = st\<lparr>logger_level := (logger_level st)(name \<mapsto> n)\<rparr>"

text \<open>\<^verbatim>\<open>stdch.setLevel(level)\<close>.\<close>

definition Handler_setLevel :: "pyval \<Rightarrow> state \<Rightarrow> exn option \<times> state" where
  "Handler_setLevel level st =
    (case checkLevel level of
       Inl e \<Rightarrow> (Some e, st)
     | Inr n \<Rightarrow> (None, st\<lparr>stdch_level := n\<rparr>))"

definition Logger_addHandler :: "string \<Rightarrow> state \<Rightarrow> state" where
  "Logger_addHandler name st = st\<lparr>stdch_attached := insert name (stdch_attached st)\<rparr>"

text \<open>
  The level a logger filters with is its own when that is set; otherwise the library asks
  the ancestors, and the root logger answers \<open>DEBUG\<close> (line 29).
\<close>

definition getEffectiveLevel :: "string \<Rightarrow> state \<Rightarrow> int" where
  "getEffectiveLevel name st =
    (case logger_level st name of
       None \<Rightarrow> DEBUG
     | Some n \<Rightarrow> if n = 0 then DEBUG else n)"

definition isEnabledFor :: "string \<Rightarrow> int \<Rightarrow> state \<Rightarrow> bool" where
  "isEnabledFor name n st = (0 < n \<and> getEffectiveLevel name st \<le> n)"

text \<open>
  \<^verbatim>\<open>Logger.log(level, msg)\<close>: a level that is not an integer raises \<^verbatim>\<open>TypeError\<close>;
  otherwise a record is created when the logger is enabled for the level.
\<close>

definition Logger_log :: "string \<Rightarrow> pyval \<Rightarrow> pyval \<Rightarrow> state \<Rightarrow> exn option \<times> state" where
  "Logger_log name level msg st =
    (case level of
       PStr s \<Rightarrow> (Some TypeError, st)
     | PInt n \<Rightarrow>
         if isEnabledFor name n st
         then (None, st\<lparr>out_log := out_log st @
                         [\<lparr>levelno = n, logger_name = name, message = str msg\<rparr>]\<rparr>)
         else (None, st))"

subsection \<open>Thread labels\<close>

text \<open>\<^verbatim>\<open>_increment_thread\<close>, lines 72 to 75.\<close>

definition increment_thread :: "state \<Rightarrow> int \<times> state" where
  "increment_thread st =
    (let st = st\<lparr>thread_count := thread_count st + 1\<rparr> in (thread_count st, st))"

text \<open>\<^verbatim>\<open>threadIds[key]\<close> on the \<^verbatim>\<open>defaultdict\<close> of line 78.\<close>

definition threadIds_getitem :: "int \<Rightarrow> state \<Rightarrow> int \<times> state" where
  "threadIds_getitem key st =
    (case threadIds st key of
       Some v \<Rightarrow> (v, st)
     | None \<Rightarrow>
         let (v, st) = increment_thread st
         in (v, st\<lparr>threadIds := (threadIds st)(key \<mapsto> v)\<rparr>))"

text \<open>Lines 236 to 239 of \<^verbatim>\<open>logMessage\<close>.\<close>

definition thread_label :: "callsite \<Rightarrow> state \<Rightarrow> string \<times> state" where
  "thread_label ctx st =
    (if is_main_thread ctx then (''M'', st)
     else let (v, st) = threadIds_getitem (thread_ident ctx) st in (str_int v, st))"

subsection \<open>GUI dispatch\<close>

text \<open>A widget method called where the caller runs.\<close>

definition direct :: "widget_call \<Rightarrow> state \<Rightarrow> state" where
  "direct c st = st\<lparr>gui := gui st @ [Direct c]\<rparr>"

text \<open>
  Modelled from the spec: \<^verbatim>\<open>threads.invoke_in_main_thread\<close> of \<^verbatim>\<open>xicam.core.threads\<close> is
  not among the sources.  The spec says that such a call is marshalled onto the GUI thread
  and there invokes the widget method; it is recorded as a marshalled call.
\<close>

definition invoke_in_main_thread :: "widget_call \<Rightarrow> state \<Rightarrow> state" where
  "invoke_in_main_thread c st = st\<lparr>gui := gui st @ [Marshalled c]\<rparr>"

definition showProgress :: "int \<Rightarrow> int \<Rightarrow> int \<Rightarrow> state \<Rightarrow> state" where
  "showProgress val minval maxval st =
    (if progressbar st then
       (let st = invoke_in_main_thread PB_show st;
            st = invoke_in_main_thread (PB_setRange minval maxval) st;
            st = invoke_in_main_thread (PB_setValue val) st
        in st)
     else st)"

definition showBusy :: "state \<Rightarrow> state" where
  "showBusy st =
    (if progressbar st then
       (let st = invoke_in_main_thread PB_show st;
            st = invoke_in_main_thread (PB_setRange 0 0) st
        in st)
     else st)"

definition hideBusy :: "state \<Rightarrow> state" where
  "hideBusy st =
    (if progressbar st then
       (let st = direct PB_hide st;
            st = direct (PB_setRange 0 100) st
        in st)
     else st)"

subsection \<open>logMessage\<close>

text \<open>
  Lines 227 to 242: attach the handler, default the timestamp, look the level name up
  (\<^verbatim>\<open>KeyError\<close> when the level is not a key of \<open>levels\<close>), compute the thread label and
  log the formatted line.
\<close>

definition logMessage_emit ::
  "callsite \<Rightarrow> string \<Rightarrow> pyval \<Rightarrow> string \<Rightarrow> string option \<Rightarrow> state \<Rightarrow> exn option \<times> state" where
  "logMessage_emit ctx s level loggername timestamp st =
    (let st = Logger_addHandler loggername st;
         timestamp = (case timestamp of None \<Rightarrow> asctime ctx | Some t \<Rightarrow> t)
     in case levels level of
          None \<Rightarrow> (Some KeyError, st)
        | Some levelname \<Rightarrow>
            let (thread, st) = thread_label ctx st
            in Logger_log loggername level
                 (PStr (timestamp @ '' - '' @ loggername @ '' - '' @ levelname @ '' - ''
                        @ thread @ '' - '' @ s)) st)"

text \<open>
  \<^verbatim>\<open>logMessage(*args, level, loggername, timestamp)\<close>, lines 190 to 242.  The parts are
  strings, on which \<^verbatim>\<open>str\<close> is the identity; \<^verbatim>\<open>suppressreprint\<close> is not read by the
  body.  In the handler of \<^verbatim>\<open>ValueError\<close> the source passes the text where
  \<^verbatim>\<open>Logger.log\<close> expects the level, and the level where it expects the message.
\<close>

definition logMessage ::
  "callsite \<Rightarrow> string list \<Rightarrow> pyval \<Rightarrow> string option \<Rightarrow> string option \<Rightarrow> state
     \<Rightarrow> exn option \<times> state" where
  "logMessage ctx args level loggername timestamp st =
    (let s = join '' '' args;
         loggername = (case loggername of
                         None \<Rightarrow> caller ctx
                       | Some n \<Rightarrow> if n = [] then caller ctx else n);
         st = Logger_setLevel loggername DEBUG st
     in case Handler_setLevel level st of
          (None, st) \<Rightarrow> logMessage_emit ctx s level loggername timestamp st
        | (Some e, st) \<Rightarrow>
            if e = ValueError then
              (let level = PInt CRITICAL in
               case Logger_log loggername
                      (PStr ''Unrecognized logger level for following message...'') level st of
                 (Some e', st) \<Rightarrow> (Some e', st)
               | (None, st) \<Rightarrow> logMessage_emit ctx s level loggername timestamp st)
            else (Some e, st))"

subsection \<open>notifyMessage, showMessage, clearMessage\<close>

text \<open>Lines 147 to 161: the part of \<^verbatim>\<open>notifyMessage\<close> guarded by \<^verbatim>\<open>if trayicon\<close>.\<close>

definition notify_tray :: "string list \<Rightarrow> int \<Rightarrow> string \<Rightarrow> pyval \<Rightarrow> state \<Rightarrow> exn option \<times> state" where
  "notify_tray args timeout title level st =
    (let icon = None;
         icon = (if level \<in> set [PInt INFO, PInt DEBUG] then Some Information else icon);
         icon = (if level = PInt WARNING then Some Warning else icon);
         icon = (if level \<in> set [PInt ERROR, PInt CRITICAL] then Some Critical else icon)
     in case icon of
          None \<Rightarrow> (Some ValueError, st)
        | Some i \<Rightarrow>
            let st = direct Tray_show st;
                st = invoke_in_main_thread (Tray_showMessage title (join [] args) i timeout) st;
                st = invoke_in_main_thread (SingleShot timeout Tray_hide) st
            in (None, st))"

text \<open>
  \<^verbatim>\<open>notifyMessage(*args, timeout, title, level)\<close>.  The last line is
  \<^verbatim>\<open>logMessage(*args)\<close>: every keyword of \<^verbatim>\<open>logMessage\<close> takes its default, and the
  calling function that \<^verbatim>\<open>logMessage\<close> finds on the stack is \<^verbatim>\<open>notifyMessage\<close>.
\<close>

definition notifyMessage ::
  "callsite \<Rightarrow> string list \<Rightarrow> int \<Rightarrow> string \<Rightarrow> pyval \<Rightarrow> state \<Rightarrow> exn option \<times> state" where
  "notifyMessage ctx args timeout title level st =
    (case (if trayicon st then notify_tray args timeout title level st else (None, st)) of
       (Some e, st) \<Rightarrow> (Some e, st)
     | (None, st) \<Rightarrow>
         logMessage (ctx\<lparr>caller := ''notifyMessage''\<rparr>) args (PInt INFO) None None st)"

text \<open>
  \<^verbatim>\<open>showMessage(*args, timeout, **kwargs)\<close>; the keywords that \<^verbatim>\<open>logMessage\<close> reads are
  passed on.
\<close>

definition showMessage ::
  "callsite \<Rightarrow> string list \<Rightarrow> int \<Rightarrow> pyval \<Rightarrow> string option \<Rightarrow> string option \<Rightarrow> state
     \<Rightarrow> exn option \<times> state" where
  "showMessage ctx args timeout level loggername timestamp st =
    (let s = join '' '' args;
         st = (if statusbar st then direct (SB_showMessage s (timeout * 1000)) st else st)
     in logMessage (ctx\<lparr>caller := ''showMessage''\<rparr>) args level loggername timestamp st)"

text \<open>
  \<^verbatim>\<open>clearMessage()\<close>: with the slot still \<^verbatim>\<open>None\<close> the attribute lookup raises
  \<^verbatim>\<open>AttributeError\<close>.
\<close>

definition clearMessage :: "state \<Rightarrow> exn option \<times> state" where
  "clearMessage st =
    (if statusbar st then (None, direct SB_clearMessage st) else (Some AttributeError, st))"

subsection \<open>Sequences of calls\<close>

text \<open>
  One call of \<^verbatim>\<open>logMessage\<close> with its arguments and surroundings, and a process that
  makes such calls one after the other; an exception ends the call that raised it and
  leaves the state as that call left it.
\<close>

record log_call =
  call_ctx :: callsite
  call_args :: "string list"
  call_level :: pyval
  call_loggername :: "string option"
  call_timestamp :: "string option"

definition do_call :: "log_call \<Rightarrow> state \<Rightarrow> exn option \<times> state" where
  "do_call c st =
    logMessage (call_ctx c) (call_args c) (call_level c) (call_loggername c) (call_timestamp c) st"

fun run :: "log_call list \<Rightarrow> state \<Rightarrow> state" where
  "run [] st = st"
| "run (c # cs) st = run cs (snd (do_call c st))"

subsection \<open>Notions used to state the properties\<close>

text \<open>The five recognised level integers.\<close>

definition recognised :: "pyval \<Rightarrow> bool" where
  "recognised level = (level \<in> set (map PInt [DEBUG, INFO, WARNING, ERROR, CRITICAL]))"

text \<open>The line format in the words of the specification.\<close>

definition spec_line :: "string \<Rightarrow> string \<Rightarrow> string \<Rightarrow> string \<Rightarrow> string \<Rightarrow> string" where
  "spec_line timestamp loggername levelname thread text =
     timestamp @ '' - '' @ loggername @ '' - '' @ levelname @ '' - '' @ thread @ '' - '' @ text"

text \<open>
  The logger name, the timestamp and the level name that belong to a call: an omitted
  or empty logger name stands for the calling function, an omitted timestamp for the
  current time.
\<close>

definition channel :: "callsite \<Rightarrow> string option \<Rightarrow> string" where
  "channel ctx loggername =
     (case loggername of None \<Rightarrow> caller ctx | Some n \<Rightarrow> if n = [] then caller ctx else n)"

definition stamp :: "callsite \<Rightarrow> string option \<Rightarrow> string" where
  "stamp ctx timestamp = (case timestamp of None \<Rightarrow> asctime ctx | Some t \<Rightarrow> t)"

definition levelname_of :: "pyval \<Rightarrow> string" where
  "levelname_of level = (case levels level of None \<Rightarrow> [] | Some name \<Rightarrow> name)"

text \<open>The label that the registry of state \<open>st\<close> holds for the thread of a call.\<close>

definition label_in :: "state \<Rightarrow> callsite \<Rightarrow> string" where
  "label_in st ctx =
     (if is_main_thread ctx then ''M''
      else case threadIds st (thread_ident ctx) of None \<Rightarrow> [] | Some v \<Rightarrow> str_int v)"

definition line_with :: "log_call \<Rightarrow> string \<Rightarrow> string" where
  "line_with c thread =
     spec_line (stamp (call_ctx c) (call_timestamp c))
               (channel (call_ctx c) (call_loggername c))
               (levelname_of (call_level c))
               thread
               (join '' '' (call_args c))"

definition line_of :: "state \<Rightarrow> log_call \<Rightarrow> string" where
  "line_of st c = line_with c (label_in st (call_ctx c))"

text \<open>The record that a call with an integer level leaves in the sink.\<close>

definition level_int :: "pyval \<Rightarrow> int" where
  "level_int level = (case level of PInt n \<Rightarrow> n | PStr s \<Rightarrow> 0)"

definition record_of :: "state \<Rightarrow> log_call \<Rightarrow> log_record" where
  "record_of st c =
     \<lparr>levelno = level_int (call_level c),
      logger_name = channel (call_ctx c) (call_loggername c),
      message = line_of st c\<rparr>"

text \<open>
  The state in which \<^verbatim>\<open>logMessage\<close> looks the level name up: the logger \<open>nm\<close> accepts
  everything from \<open>DEBUG\<close>, the stream handler has level \<open>n\<close> and is attached to the logger.
\<close>

definition prepared :: "string \<Rightarrow> int \<Rightarrow> state \<Rightarrow> state" where
  "prepared nm n st = Logger_addHandler nm ((Logger_setLevel nm DEBUG st)\<lparr>stdch_level := n\<rparr>)"

text \<open>
  A call reaches the thread-label lookup of line 239 when it is made off the main thread
  with a level that is a key of \<open>levels\<close>.  \<open>first_seen cs seen\<close> extends \<open>seen\<close> by the
  thread identifiers of such calls in \<open>cs\<close>, in the order in which they first occur.
\<close>

definition labelled :: "log_call \<Rightarrow> bool" where
  "labelled c = (\<not> is_main_thread (call_ctx c) \<and> levels (call_level c) \<noteq> None)"

fun first_seen :: "log_call list \<Rightarrow> int list \<Rightarrow> int list" where
  "first_seen [] seen = seen"
| "first_seen (c # cs) seen =
     first_seen cs (if labelled c \<and> thread_ident (call_ctx c) \<notin> set seen
                    then seen @ [thread_ident (call_ctx c)] else seen)"

text \<open>
  The registry holds exactly the identifiers of \<open>seen\<close>, the \<open>k\<close>-th of them (counting
  from 0) with the label \<open>k + 1\<close>, and the counter is their number.
\<close>

definition registry_is :: "state \<Rightarrow> int list \<Rightarrow> bool" where
  "registry_is st seen =
     (thread_count st = int (length seen) \<and> distinct seen \<and> dom (threadIds st) = set seen
      \<and> (\<forall>k < length seen. threadIds st (seen ! k) = Some (int k + 1)))"

text \<open>Reading a decimal numeral back, to tell the labels of different threads apart.\<close>

definition digit_val :: "char \<Rightarrow> nat" where
  "digit_val c = of_char c - 48"

definition val_nat :: "string \<Rightarrow> nat" where
  "val_nat s = foldl (\<lambda>a c. 10 * a + digit_val c) 0 s"

section \<open>Properties of xicam.core.paths\<close>

lemma call_Str: "call (Str s) a = Inl TypeError"
  by (simp add: call_def)

lemma call_Fn: "call (Fn g) a = Inr (g a)"
  by (simp add: call_def)

text \<open>
  Claim C2 (path resolution: the user plugin directory lies under the cache directory on
  Darwin and under the config directory elsewhere, the site plugin directory under the
  site config directory).  The module does not get that far.  Lines 5 to 7 rebind the
  three imported functions to the strings they return, and lines 11, 13 and 14 call those
  names again: on every operating system, whatever the library returns, the module body
  raises \<^verbatim>\<open>TypeError\<close> and no plugin path is ever computed.
\<close>

theorem paths_module_raises_TypeError:
  "paths_module lib expanduser system = Inl TypeError"
  by (simp add: paths_module_def call_Str call_Fn Let_def)

subsection \<open>Directory creation\<close>















section \<open>Properties of xicam.core.msg\<close>

subsection \<open>Levels and thread labels\<close>

lemma levels_Some:
  "levels level = Some ln \<Longrightarrow> \<exists>n. level = PInt n \<and> 10 \<le> n"
  by (auto simp: levels_def split: if_splits)

lemma recognised_levels: "recognised level \<longleftrightarrow> levels level \<noteq> None"
  by (auto simp: recognised_def levels_def)

lemma levels_PStr: "levels (PStr s) = None"
  by (simp add: levels_def)

lemma thread_label_main: "is_main_thread ctx \<Longrightarrow> thread_label ctx st = (''M'', st)"
  by (simp add: thread_label_def)

lemma thread_label_known:
  "\<not> is_main_thread ctx \<Longrightarrow> threadIds st (thread_ident ctx) = Some v \<Longrightarrow>
   thread_label ctx st = (str_int v, st)"
  by (simp add: thread_label_def threadIds_getitem_def)

lemma thread_label_new:
  "\<not> is_main_thread ctx \<Longrightarrow> threadIds st (thread_ident ctx) = None \<Longrightarrow>
   thread_label ctx st =
     (str_int (thread_count st + 1),
      st\<lparr>thread_count := thread_count st + 1,
         threadIds := (threadIds st)(thread_ident ctx \<mapsto> thread_count st + 1)\<rparr>)"
  by (simp add: thread_label_def threadIds_getitem_def increment_thread_def Let_def)

lemma thread_label_cases:
  obtains "thread_label ctx st = (''M'', st)" "is_main_thread ctx"
  | v where "thread_label ctx st = (str_int v, st)" "\<not> is_main_thread ctx"
      "threadIds st (thread_ident ctx) = Some v"
  | "thread_label ctx st =
     (str_int (thread_count st + 1),
      st\<lparr>thread_count := thread_count st + 1,
         threadIds := (threadIds st)(thread_ident ctx \<mapsto> thread_count st + 1)\<rparr>)"
    "\<not> is_main_thread ctx" "threadIds st (thread_ident ctx) = None"
  using thread_label_main thread_label_known thread_label_new
  by (cases "is_main_thread ctx"; cases "threadIds st (thread_ident ctx)") auto

lemma thread_label_other:
  "out_log (snd (thread_label ctx st)) = out_log st"
  "gui (snd (thread_label ctx st)) = gui st"
  "logger_level (snd (thread_label ctx st)) = logger_level st"
  "statusbar (snd (thread_label ctx st)) = statusbar st"
  "progressbar (snd (thread_label ctx st)) = progressbar st"
  "trayicon (snd (thread_label ctx st)) = trayicon st"
  by (rule thread_label_cases[of ctx st]; simp)+

lemma thread_label_label:
  "fst (thread_label ctx st) = label_in (snd (thread_label ctx st)) ctx"
  by (rule thread_label_cases[of ctx st]) (simp_all add: label_in_def)

lemma thread_label_keeps:
  "threadIds st i = Some v \<Longrightarrow> threadIds (snd (thread_label ctx st)) i = Some v"
  by (rule thread_label_cases[of ctx st]) auto


subsection \<open>One call of logMessage\<close>

lemma prepared_fields:
  "out_log (prepared nm n st) = out_log st"
  "gui (prepared nm n st) = gui st"
  "threadIds (prepared nm n st) = threadIds st"
  "thread_count (prepared nm n st) = thread_count st"
  "logger_level (prepared nm n st) nm = Some DEBUG"
  "statusbar (prepared nm n st) = statusbar st"
  "progressbar (prepared nm n st) = progressbar st"
  "trayicon (prepared nm n st) = trayicon st"
  by (simp_all add: prepared_def Logger_addHandler_def Logger_setLevel_def)

lemma Logger_setLevel_fields:
  "out_log (Logger_setLevel nm n st) = out_log st"
  "gui (Logger_setLevel nm n st) = gui st"
  "threadIds (Logger_setLevel nm n st) = threadIds st"
  "thread_count (Logger_setLevel nm n st) = thread_count st"
  by (simp_all add: Logger_setLevel_def)

lemma thread_label_prepared:
  "threadIds (snd (thread_label ctx (prepared nm n st))) = threadIds (snd (thread_label ctx st))"
  "thread_count (snd (thread_label ctx (prepared nm n st)))
     = thread_count (snd (thread_label ctx st))"
  by (cases "is_main_thread ctx"; cases "threadIds st (thread_ident ctx)";
      simp add: thread_label_main thread_label_known thread_label_new prepared_fields)+

lemma Logger_log_enabled:
  "logger_level st nm = Some DEBUG \<Longrightarrow> 10 \<le> n \<Longrightarrow>
   Logger_log nm (PInt n) (PStr m) st =
     (None, st\<lparr>out_log := out_log st @ [\<lparr>levelno = n, logger_name = nm, message = m\<rparr>]\<rparr>)"
  by (simp add: Logger_log_def isEnabledFor_def getEffectiveLevel_def str_def)

text \<open>With a level that is a key of \<open>levels\<close> the call returns and appends one record.\<close>

lemma logMessage_recognised:
  assumes "levels (PInt n) = Some ln"
  shows "logMessage ctx args (PInt n) lname ts st =
    (let nm = channel ctx lname;
         st2 = snd (thread_label ctx (prepared nm n st))
     in (None, st2\<lparr>out_log := out_log st @
            [\<lparr>levelno = n, logger_name = nm,
              message = spec_line (stamp ctx ts) nm ln (label_in st2 ctx) (join '' '' args)\<rparr>]\<rparr>))"
proof -
  define nm where "nm = channel ctx lname"
  define st1 where "st1 = prepared nm n st"
  obtain lab st2 where tl: "thread_label ctx st1 = (lab, st2)" by (cases "thread_label ctx st1")
  from assms have n: "10 \<le> n" using levels_Some by blast
  have lab: "lab = label_in st2 ctx" using thread_label_label[of ctx st1] tl by simp
  have ll: "logger_level st2 nm = Some DEBUG" and ol: "out_log st2 = out_log st"
    using thread_label_other(3)[of ctx st1] thread_label_other(1)[of ctx st1] tl
    by (simp_all add: st1_def prepared_fields)
  have "logMessage ctx args (PInt n) lname ts st =
        Logger_log nm (PInt n) (PStr (spec_line (stamp ctx ts) nm ln lab (join '' '' args))) st2"
    using assms tl
    by (simp add: logMessage_def logMessage_emit_def Handler_setLevel_def checkLevel_def Let_def
        nm_def[symmetric, unfolded channel_def] st1_def[unfolded prepared_def] stamp_def
        spec_line_def)
  then show ?thesis
    using Logger_log_enabled[OF ll n] tl lab ol
    by (simp add: Let_def nm_def[symmetric] st1_def[symmetric])
qed

text \<open>
  With an integer that is not a key of \<open>levels\<close> the stream handler accepts the level, so
  the handler of \<^verbatim>\<open>ValueError\<close> is not entered, and the lookup of the level name raises
  \<^verbatim>\<open>KeyError\<close>.
\<close>

lemma logMessage_int_unrecognised:
  "levels (PInt n) = None \<Longrightarrow>
   logMessage ctx args (PInt n) lname ts st = (Some KeyError, prepared (channel ctx lname) n st)"
  by (simp add: logMessage_def logMessage_emit_def Handler_setLevel_def checkLevel_def Let_def
      channel_def prepared_def)

text \<open>
  With a string as level the call raises as well: \<^verbatim>\<open>TypeError\<close> out of the handler of
  \<^verbatim>\<open>ValueError\<close> when the string is no level name, \<^verbatim>\<open>KeyError\<close> when it is one.
\<close>

lemma logMessage_str:
  "logMessage ctx args (PStr s) lname ts st =
    (case nameToLevel s of
       None \<Rightarrow> (Some TypeError, Logger_setLevel (channel ctx lname) DEBUG st)
     | Some m \<Rightarrow> (Some KeyError, prepared (channel ctx lname) m st))"
  by (simp add: logMessage_def logMessage_emit_def Handler_setLevel_def checkLevel_def Let_def
      channel_def prepared_def Logger_log_def levels_PStr split: option.splits)

lemma logMessage_unrecognised:
  assumes "levels level = None"
  shows "fst (logMessage ctx args level lname ts st) \<noteq> None"
    and "out_log (snd (logMessage ctx args level lname ts st)) = out_log st"
    and "gui (snd (logMessage ctx args level lname ts st)) = gui st"
    and "threadIds (snd (logMessage ctx args level lname ts st)) = threadIds st"
    and "thread_count (snd (logMessage ctx args level lname ts st)) = thread_count st"
  using assms
  by (cases level; simp add: logMessage_int_unrecognised logMessage_str prepared_fields
        Logger_setLevel_fields split: option.splits)+

text \<open>
  Claim C1 (an unrecognised level integer is escalated to \<open>CRITICAL\<close>, a warning line and
  the message are emitted, and the call never raises).  At level 999 the call raises
  \<^verbatim>\<open>KeyError\<close> and the sink is as it was before: no line is emitted.
\<close>

theorem logMessage_999_raises_KeyError:
  "logMessage ctx args (PInt 999) loggername timestamp st
     = (Some KeyError, prepared (channel ctx loggername) 999 st)
   \<and> out_log (prepared (channel ctx loggername) 999 st) = out_log st"
  by (simp add: logMessage_int_unrecognised levels_def prepared_fields)

subsection \<open>Sequences of calls\<close>

lemma do_call_recognised:
  assumes "recognised (call_level c)"
  shows "fst (do_call c st) = None"
    and "out_log (snd (do_call c st)) = out_log st @ [record_of (snd (do_call c st)) c]"
    and "gui (snd (do_call c st)) = gui st"
    and "threadIds (snd (do_call c st)) = threadIds (snd (thread_label (call_ctx c) st))"
    and "thread_count (snd (do_call c st)) = thread_count (snd (thread_label (call_ctx c) st))"
proof -
  from assms obtain ln where ln: "levels (call_level c) = Some ln"
    by (auto simp: recognised_levels)
  then obtain n where n: "call_level c = PInt n" using levels_Some by blast
  note eq = logMessage_recognised[OF ln[unfolded n], of "call_ctx c" "call_args c"
      "call_loggername c" "call_timestamp c" st]
  show "fst (do_call c st) = None" by (simp add: do_call_def n eq Let_def)
  show "out_log (snd (do_call c st)) = out_log st @ [record_of (snd (do_call c st)) c]"
    using ln by (simp add: do_call_def n eq Let_def record_of_def line_of_def line_with_def
        level_int_def levelname_of_def label_in_def)
  show "gui (snd (do_call c st)) = gui st"
    by (simp add: do_call_def n eq Let_def thread_label_other prepared_fields)
  show "threadIds (snd (do_call c st)) = threadIds (snd (thread_label (call_ctx c) st))"
    by (simp add: do_call_def n eq Let_def thread_label_prepared)
  show "thread_count (snd (do_call c st)) = thread_count (snd (thread_label (call_ctx c) st))"
    by (simp add: do_call_def n eq Let_def thread_label_prepared)
qed

lemma do_call_unrecognised:
  assumes "\<not> recognised (call_level c)"
  shows "fst (do_call c st) \<noteq> None"
    and "out_log (snd (do_call c st)) = out_log st"
    and "gui (snd (do_call c st)) = gui st"
    and "threadIds (snd (do_call c st)) = threadIds st"
    and "thread_count (snd (do_call c st)) = thread_count st"
  using assms logMessage_unrecognised[of "call_level c"]
  by (simp_all add: do_call_def recognised_levels)

lemma do_call_keeps:
  "threadIds st i = Some v \<Longrightarrow> threadIds (snd (do_call c st)) i = Some v"
  by (cases "recognised (call_level c)")
     (simp_all add: do_call_recognised do_call_unrecognised thread_label_keeps)

lemma run_keeps:
  "threadIds st i = Some v \<Longrightarrow> threadIds (run cs st) i = Some v"
  by (induction cs arbitrary: st) (simp_all add: do_call_keeps)







subsection \<open>Notifications and the status bar\<close>

lemma levels_INFO: "levels (PInt INFO) = Some ''INFO''"
  by (simp add: levels_def)

text \<open>The log call that ends \<^verbatim>\<open>notifyMessage\<close>: it returns and appends one \<open>INFO\<close> record.\<close>

lemma notify_log:
  "logMessage (ctx\<lparr>caller := ''notifyMessage''\<rparr>) args (PInt INFO) None None st =
     (let st2 = snd (thread_label ctx (prepared ''notifyMessage'' INFO st))
      in (None, st2\<lparr>out_log := out_log st @
            [\<lparr>levelno = INFO, logger_name = ''notifyMessage'',
              message = spec_line (asctime ctx) ''notifyMessage'' ''INFO'' (label_in st2 ctx)
                          (join '' '' args)\<rparr>]\<rparr>))"
proof -
  have tl: "thread_label (ctx\<lparr>caller := ''notifyMessage''\<rparr>) s = thread_label ctx s" for s
    by (simp add: thread_label_def)
  have li: "label_in s (ctx\<lparr>caller := ''notifyMessage''\<rparr>) = label_in s ctx" for s
    by (simp add: label_in_def)
  show ?thesis
    by (simp add: logMessage_recognised[OF levels_INFO] channel_def stamp_def tl li Let_def)
qed

lemma logMessage_INFO_fields:
  "fst (logMessage ctx args (PInt INFO) lname ts st) = None"
  "gui (snd (logMessage ctx args (PInt INFO) lname ts st)) = gui st"
  by (simp_all add: logMessage_recognised[OF levels_INFO] Let_def thread_label_other
      prepared_fields)

lemma notify_tray_icon:
  "notify_tray args timeout title (PInt L) st =
    (if L \<in> {DEBUG, INFO, WARNING, ERROR, CRITICAL} then
       (None, st\<lparr>gui := gui st @
          [Direct Tray_show,
           Marshalled (Tray_showMessage title (join [] args)
              (if L = WARNING then Warning
               else if L = DEBUG \<or> L = INFO then Information else Critical) timeout),
           Marshalled (SingleShot timeout Tray_hide)]\<rparr>)
     else (Some ValueError, st))"
  by (simp add: notify_tray_def direct_def invoke_in_main_thread_def Let_def)



text \<open>
  Claim C4 (\<^verbatim>\<open>notifyMessage\<close> with a tray icon registered).  Level \<open>WARNING\<close> shows the
  tray and queues exactly one balloon, with the Warning icon, and one timer that hides
  the tray; \<open>DEBUG\<close> and \<open>INFO\<close> do the same with the Information icon, \<open>ERROR\<close> and
  \<open>CRITICAL\<close> with the Critical icon; every other integer raises \<^verbatim>\<open>ValueError\<close> and
  changes nothing.
\<close>

theorem notifyMessage_icon_by_level:
  assumes "trayicon st"
  shows "(L = WARNING \<longrightarrow>
            fst (notifyMessage ctx args timeout title (PInt L) st) = None
          \<and> gui (snd (notifyMessage ctx args timeout title (PInt L) st)) = gui st @
              [Direct Tray_show,
               Marshalled (Tray_showMessage title (join [] args) Warning timeout),
               Marshalled (SingleShot timeout Tray_hide)])
       \<and> (L = DEBUG \<or> L = INFO \<longrightarrow>
            fst (notifyMessage ctx args timeout title (PInt L) st) = None
          \<and> gui (snd (notifyMessage ctx args timeout title (PInt L) st)) = gui st @
              [Direct Tray_show,
               Marshalled (Tray_showMessage title (join [] args) Information timeout),
               Marshalled (SingleShot timeout Tray_hide)])
       \<and> (L = ERROR \<or> L = CRITICAL \<longrightarrow>
            fst (notifyMessage ctx args timeout title (PInt L) st) = None
          \<and> gui (snd (notifyMessage ctx args timeout title (PInt L) st)) = gui st @
              [Direct Tray_show,
               Marshalled (Tray_showMessage title (join [] args) Critical timeout),
               Marshalled (SingleShot timeout Tray_hide)])
       \<and> (L \<notin> {DEBUG, INFO, WARNING, ERROR, CRITICAL} \<longrightarrow>
            notifyMessage ctx args timeout title (PInt L) st = (Some ValueError, st))"
  using assms
  by (auto simp: notifyMessage_def notify_tray_icon logMessage_INFO_fields)

theorem notifyMessage_icon_by_level_witness:
  "trayicon (module_state True)
   \<and> gui (snd (notifyMessage
        \<lparr>is_main_thread = False, thread_ident = 7, caller = ''work'',
         asctime = ''Fri Nov  6 01:07:01 2026''\<rparr>
        [''disk'', ''full''] 8000 ''Xi-cam'' (PInt WARNING) (module_state True)))
     = [Direct Tray_show,
        Marshalled (Tray_showMessage ''Xi-cam'' ''diskfull'' Warning 8000),
        Marshalled (SingleShot 8000 Tray_hide)]
   \<and> notifyMessage
        \<lparr>is_main_thread = False, thread_ident = 7, caller = ''work'',
         asctime = ''Fri Nov  6 01:07:01 2026''\<rparr>
        [''disk'', ''full''] 8000 ''Xi-cam'' (PInt 999) (module_state True)
     = (Some ValueError, module_state True)"
proof -
  let ?ctx = "\<lparr>is_main_thread = False, thread_ident = 7, caller = ''work'',
         asctime = ''Fri Nov  6 01:07:01 2026''\<rparr>"
  have t: "trayicon (module_state True)" by (simp add: module_state_def)
  have g: "gui (module_state True) = []" by (simp add: module_state_def)
  show ?thesis
    using t g
      notifyMessage_icon_by_level[OF t, of WARNING ?ctx "[''disk'', ''full'']" 8000 "''Xi-cam''"]
      notifyMessage_icon_by_level[OF t, of 999 ?ctx "[''disk'', ''full'']" 8000 "''Xi-cam''"]
    by simp
qed

text \<open>
  Claim C7 (\<^verbatim>\<open>clearMessage\<close>).  With no status bar registered the call raises
  \<^verbatim>\<open>AttributeError\<close> and changes nothing; with one registered it returns, having called
  the status bar's \<^verbatim>\<open>clearMessage\<close> once and nothing else.
\<close>

theorem clearMessage_needs_statusbar:
  "(\<not> statusbar st \<longrightarrow> clearMessage st = (Some AttributeError, st))
   \<and> (statusbar st \<longrightarrow>
        clearMessage st = (None, st\<lparr>gui := gui st @ [Direct SB_clearMessage]\<rparr>))"
  by (simp add: clearMessage_def direct_def)

theorem clearMessage_needs_statusbar_witness:
  "clearMessage (module_state False) = (Some AttributeError, module_state False)
   \<and> gui (snd (clearMessage ((module_state False)\<lparr>statusbar := True\<rparr>))) = [Direct SB_clearMessage]"
  using clearMessage_needs_statusbar[of "module_state False"]
    clearMessage_needs_statusbar[of "(module_state False)\<lparr>statusbar := True\<rparr>"]
  by (simp add: module_state_def)

text \<open>
  Claim C8 (every widget method is marshalled onto the GUI thread).  \<^verbatim>\<open>hideBusy\<close> with
  a progress bar registered calls \<^verbatim>\<open>hide\<close> and \<^verbatim>\<open>setRange\<close> of the widget on the calling
  thread, while \<^verbatim>\<open>showBusy\<close> hands \<^verbatim>\<open>show\<close> and \<^verbatim>\<open>setRange\<close> of the same widget to the
  GUI thread; \<^verbatim>\<open>showMessage\<close> with a status bar registered calls the status bar on the
  calling thread as well.
\<close>

theorem hideBusy_calls_widget_directly:
  "gui (hideBusy ((module_state False)\<lparr>progressbar := True\<rparr>))
     = [Direct PB_hide, Direct (PB_setRange 0 100)]
   \<and> gui (showBusy ((module_state False)\<lparr>progressbar := True\<rparr>))
     = [Marshalled PB_show, Marshalled (PB_setRange 0 0)]
   \<and> gui (snd (showMessage
        \<lparr>is_main_thread = False, thread_ident = 7, caller = ''work'',
         asctime = ''Fri Nov  6 01:07:01 2026''\<rparr>
        [''loading'', ''data''] 5 (PInt INFO) None None
        ((module_state False)\<lparr>statusbar := True\<rparr>)))
     = [Direct (SB_showMessage ''loading data'' 5000)]"
  by (simp add: hideBusy_def showBusy_def showMessage_def direct_def invoke_in_main_thread_def
      logMessage_INFO_fields module_state_def)

text \<open>
  Claim C9 (\<^verbatim>\<open>notifyMessage\<close> without a tray icon).  Whatever the level, an integer or
  not, the call is the plain log call: it returns, touches no widget and appends one
  record to the sink.
\<close>

theorem notifyMessage_without_tray:
  assumes "\<not> trayicon st"
  shows "notifyMessage ctx args timeout title level st
           = logMessage (ctx\<lparr>caller := ''notifyMessage''\<rparr>) args (PInt INFO) None None st
       \<and> fst (notifyMessage ctx args timeout title level st) = None
       \<and> gui (snd (notifyMessage ctx args timeout title level st)) = gui st
       \<and> length (out_log (snd (notifyMessage ctx args timeout title level st)))
           = length (out_log st) + 1"
  using assms by (simp add: notifyMessage_def logMessage_INFO_fields) (simp add: notify_log Let_def)

theorem notifyMessage_without_tray_witness:
  "\<not> trayicon (module_state False)
   \<and> fst (notifyMessage
        \<lparr>is_main_thread = True, thread_ident = 1, caller = ''load'',
         asctime = ''Fri Nov  6 01:07:00 2026''\<rparr>
        [''done''] 8000 ''Xi-cam'' (PInt 999) (module_state False)) = None
   \<and> gui (snd (notifyMessage
        \<lparr>is_main_thread = True, thread_ident = 1, caller = ''load'',
         asctime = ''Fri Nov  6 01:07:00 2026''\<rparr>
        [''done''] 8000 ''Xi-cam'' (PInt 999) (module_state False))) = []"
proof -
  let ?ctx = "\<lparr>is_main_thread = True, thread_ident = 1, caller = ''load'',
         asctime = ''Fri Nov  6 01:07:00 2026''\<rparr>"
  have t: "\<not> trayicon (module_state False)" by (simp add: module_state_def)
  have g: "gui (module_state False) = []" by (simp add: module_state_def)
  from notifyMessage_without_tray[OF t, of ?ctx "[''done'']" 8000 "''Xi-cam''" "PInt 999"]
  have "fst (notifyMessage ?ctx [''done''] 8000 ''Xi-cam'' (PInt 999) (module_state False)) = None
      \<and> gui (snd (notifyMessage ?ctx [''done''] 8000 ''Xi-cam'' (PInt 999) (module_state False)))
          = gui (module_state False)"
    by blast
  with t g show ?thesis by simp
qed



subsection \<open>Decimal numerals are read back\<close>

lemma digit_val_digit_char: "d < 10 \<Longrightarrow> digit_val (digit_char d) = d"
proof -
  assume "d < 10"
  then have "d = 0 \<or> d = 1 \<or> d = 2 \<or> d = 3 \<or> d = 4 \<or> d = 5 \<or> d = 6
    \<or> d = 7 \<or> d = 8 \<or> d = 9" by arith
  then show ?thesis
    by (elim disjE) (simp_all add: digit_val_def digit_char_def)
qed

lemma val_nat_str_nat: "val_nat (str_nat n) = n"
proof (induction n rule: str_nat.induct)
  case (1 n)
  show ?case
  proof (cases "n < 10")
    case True
    then show ?thesis
      by (subst str_nat.simps) (simp add: val_nat_def digit_val_digit_char)
  next
    case False
    with 1 have "val_nat (str_nat (n div 10)) = n div 10" by simp
    with False show ?thesis
      by (subst str_nat.simps) (simp add: val_nat_def digit_val_digit_char)
  qed
qed

lemma str_int_inj: "0 \<le> i \<Longrightarrow> 0 \<le> j \<Longrightarrow> str_int i = str_int j \<Longrightarrow> i = j"
proof -
  assume a: "0 \<le> i" "0 \<le> j" "str_int i = str_int j"
  then have "str_nat (nat i) = str_nat (nat j)" by (simp add: str_int_def)
  then have "val_nat (str_nat (nat i)) = val_nat (str_nat (nat j))" by simp
  then have "nat i = nat j" by (simp add: val_nat_str_nat)
  with a show ?thesis by simp
qed

subsection \<open>The registry along a run\<close>

lemma registry_is_cong:
  "threadIds st' = threadIds st \<Longrightarrow> thread_count st' = thread_count st \<Longrightarrow>
   registry_is st' seen = registry_is st seen"
  by (simp add: registry_is_def)

lemma registry_is_new:
  assumes "registry_is st seen" and "i \<notin> set seen"
  shows "registry_is (st\<lparr>thread_count := thread_count st + 1,
                         threadIds := (threadIds st)(i \<mapsto> thread_count st + 1)\<rparr>) (seen @ [i])"
proof -
  from assms(1) have c: "thread_count st = int (length seen)" and d: "distinct seen"
    and dm: "dom (threadIds st) = set seen"
    and v: "\<And>k. k < length seen \<Longrightarrow> threadIds st (seen ! k) = Some (int k + 1)"
    by (simp_all add: registry_is_def)
  have "((threadIds st)(i \<mapsto> thread_count st + 1)) ((seen @ [i]) ! k) = Some (int k + 1)"
    if "k < length (seen @ [i])" for k
  proof (cases "k < length seen")
    case True
    then have "seen ! k \<noteq> i" using assms(2) by (metis nth_mem)
    with True v[OF True] show ?thesis by (simp add: nth_append)
  next
    case False
    with that have "k = length seen" by simp
    then show ?thesis by (simp add: c)
  qed
  with c d dm assms(2) show ?thesis
    by (simp add: registry_is_def)
qed

lemma thread_label_registry:
  assumes "registry_is st seen"
  shows "registry_is (snd (thread_label ctx st))
           (if \<not> is_main_thread ctx \<and> thread_ident ctx \<notin> set seen
            then seen @ [thread_ident ctx] else seen)"
proof (rule thread_label_cases[of ctx st])
  assume "thread_label ctx st = (''M'', st)" "is_main_thread ctx"
  with assms show ?thesis by simp
next
  fix v
  assume a: "thread_label ctx st = (str_int v, st)" "\<not> is_main_thread ctx"
    "threadIds st (thread_ident ctx) = Some v"
  from a(3) assms have "thread_ident ctx \<in> set seen"
    by (auto simp: registry_is_def)
  with a assms show ?thesis by simp
next
  assume a: "thread_label ctx st =
     (str_int (thread_count st + 1),
      st\<lparr>thread_count := thread_count st + 1,
         threadIds := (threadIds st)(thread_ident ctx \<mapsto> thread_count st + 1)\<rparr>)"
    "\<not> is_main_thread ctx" "threadIds st (thread_ident ctx) = None"
  from a(3) assms have n: "thread_ident ctx \<notin> set seen"
    by (auto simp: registry_is_def)
  with a registry_is_new[OF assms n] show ?thesis by simp
qed

lemma do_call_registry:
  assumes "registry_is st seen"
  shows "registry_is (snd (do_call c st))
           (if labelled c \<and> thread_ident (call_ctx c) \<notin> set seen
            then seen @ [thread_ident (call_ctx c)] else seen)"
proof (cases "recognised (call_level c)")
  case True
  then have l: "labelled c \<longleftrightarrow> \<not> is_main_thread (call_ctx c)"
    by (simp add: labelled_def recognised_levels)
  have "registry_is (snd (do_call c st)) seen' = registry_is (snd (thread_label (call_ctx c) st)) seen'"
    for seen'
    by (rule registry_is_cong) (simp_all add: do_call_recognised[OF True])
  with thread_label_registry[OF assms, of "call_ctx c"] l show ?thesis by simp
next
  case False
  then have l: "\<not> labelled c" by (simp add: labelled_def recognised_levels)
  have "registry_is (snd (do_call c st)) seen = registry_is st seen"
    by (rule registry_is_cong) (simp_all add: do_call_unrecognised[OF False])
  with assms l show ?thesis by simp
qed

lemma run_registry:
  "registry_is st seen \<Longrightarrow> registry_is (run cs st) (first_seen cs seen)"
proof (induction cs arbitrary: st seen)
  case Nil
  then show ?case by simp
next
  case (Cons c cs)
  from Cons.IH[OF do_call_registry[OF Cons.prems, of c]] show ?case by simp
qed

lemma registry_is_initial:
  "thread_count st = 0 \<Longrightarrow> threadIds st = Map.empty \<Longrightarrow> registry_is st []"
  by (simp add: registry_is_def)

text \<open>The line that a call with a recognised level appends, by the label it is given.\<close>

lemma do_call_line:
  assumes "recognised (call_level c)"
  shows "message (last (out_log (snd (do_call c st))))
           = line_with c (fst (thread_label (call_ctx c) st))"
proof -
  have "label_in (snd (do_call c st)) (call_ctx c)
        = label_in (snd (thread_label (call_ctx c) st)) (call_ctx c)"
    by (simp add: label_in_def do_call_recognised(4)[OF assms])
  then show ?thesis
    by (simp add: do_call_recognised(2)[OF assms] record_of_def line_of_def
        thread_label_label[symmetric])
qed

lemma registry_is_nth:
  "registry_is st seen \<Longrightarrow> k < length seen \<Longrightarrow> threadIds st (seen ! k) = Some (int k + 1)"
  by (simp add: registry_is_def)

lemma registry_is_dom: "registry_is st seen \<Longrightarrow> (threadIds st i = None) = (i \<notin> set seen)"
  by (auto simp: registry_is_def)

lemma registry_is_count: "registry_is st seen \<Longrightarrow> thread_count st = int (length seen)"
  by (simp add: registry_is_def)

text \<open>
  Claim C5 (thread labels).  Let a process start with an empty registry and make any
  sequence \<open>cs\<close> of calls, and let \<open>seen\<close> be the identifiers of the threads other than the
  main thread in the order in which they first got a label.  Then the registry holds
  exactly these identifiers, the \<open>k\<close>-th (from 0) with the integer \<open>k + 1\<close>; a further
  call \<open>c\<close> with a recognised level writes the label \<^verbatim>\<open>M\<close> when it is made on the main
  thread, the decimal \<open>k + 1\<close> when its thread is the \<open>k\<close>-th of \<open>seen\<close>, and the next
  integer when its thread is new; an entry of the registry is still there after any
  further calls \<open>cs'\<close>; and different integers are written as different labels.
\<close>

theorem thread_labels_first_come:
  assumes "thread_count st0 = 0" and "threadIds st0 = Map.empty"
  shows "registry_is (run cs st0) (first_seen cs [])
       \<and> (recognised (call_level c) \<and> is_main_thread (call_ctx c) \<longrightarrow>
            message (last (out_log (snd (do_call c (run cs st0))))) = line_with c ''M'')
       \<and> (recognised (call_level c) \<and> \<not> is_main_thread (call_ctx c)
            \<and> k < length (first_seen cs []) \<and> first_seen cs [] ! k = thread_ident (call_ctx c) \<longrightarrow>
            message (last (out_log (snd (do_call c (run cs st0)))))
              = line_with c (str_int (int k + 1)))
       \<and> (recognised (call_level c) \<and> \<not> is_main_thread (call_ctx c)
            \<and> thread_ident (call_ctx c) \<notin> set (first_seen cs []) \<longrightarrow>
            message (last (out_log (snd (do_call c (run cs st0)))))
              = line_with c (str_int (int (length (first_seen cs [])) + 1)))
       \<and> (threadIds (run cs st0) i = Some v \<longrightarrow> threadIds (run cs' (run cs st0)) i = Some v)
       \<and> (m \<noteq> n \<longrightarrow> str_int (int m + 1) \<noteq> str_int (int n + 1))"
proof -
  let ?st = "run cs st0" and ?seen = "first_seen cs []"
  have reg: "registry_is ?st ?seen"
    using run_registry[OF registry_is_initial[OF assms], of cs] .
  have main: "message (last (out_log (snd (do_call c ?st)))) = line_with c ''M''"
    if "recognised (call_level c)" "is_main_thread (call_ctx c)"
    using that by (simp add: do_call_line thread_label_main)
  have known: "message (last (out_log (snd (do_call c ?st)))) = line_with c (str_int (int k + 1))"
    if "recognised (call_level c)" "\<not> is_main_thread (call_ctx c)" "k < length ?seen"
      "?seen ! k = thread_ident (call_ctx c)"
    using that registry_is_nth[OF reg that(3)]
    by (simp add: do_call_line thread_label_known)
  have new: "message (last (out_log (snd (do_call c ?st))))
               = line_with c (str_int (int (length ?seen) + 1))"
    if "recognised (call_level c)" "\<not> is_main_thread (call_ctx c)"
      "thread_ident (call_ctx c) \<notin> set ?seen"
    using that registry_is_dom[OF reg, of "thread_ident (call_ctx c)"] registry_is_count[OF reg]
    by (simp add: do_call_line thread_label_new)
  have inj: "str_int (int m + 1) \<noteq> str_int (int n + 1)" if "m \<noteq> n"
    using that str_int_inj[of "int m + 1" "int n + 1"] by auto
  from reg main known new inj run_keeps[of ?st i v cs'] show ?thesis by blast
qed

theorem thread_labels_first_come_witness:
  "thread_count (module_state False) = 0 \<and> threadIds (module_state False) = Map.empty
   \<and> registry_is
       (run [\<lparr>call_ctx = \<lparr>is_main_thread = False, thread_ident = 7, caller = ''work'',
                           asctime = ''noon''\<rparr>,
               call_args = [''a''], call_level = PInt INFO,
               call_loggername = None, call_timestamp = None\<rparr>,
              \<lparr>call_ctx = \<lparr>is_main_thread = True, thread_ident = 1, caller = ''load'',
                           asctime = ''noon''\<rparr>,
               call_args = [''b''], call_level = PInt INFO,
               call_loggername = None, call_timestamp = None\<rparr>,
              \<lparr>call_ctx = \<lparr>is_main_thread = False, thread_ident = 9, caller = ''work'',
                           asctime = ''noon''\<rparr>,
               call_args = [''c''], call_level = PInt ERROR,
               call_loggername = None, call_timestamp = None\<rparr>]
            (module_state False))
       [7, 9]
   \<and> message (last (out_log (snd (do_call
        \<lparr>call_ctx = \<lparr>is_main_thread = False, thread_ident = 9, caller = ''work'',
                     asctime = ''noon''\<rparr>,
          call_args = [''d''], call_level = PInt DEBUG,
          call_loggername = None, call_timestamp = None\<rparr>
        (run [\<lparr>call_ctx = \<lparr>is_main_thread = False, thread_ident = 7, caller = ''work'',
                           asctime = ''noon''\<rparr>,
               call_args = [''a''], call_level = PInt INFO,
               call_loggername = None, call_timestamp = None\<rparr>,
              \<lparr>call_ctx = \<lparr>is_main_thread = True, thread_ident = 1, caller = ''load'',
                           asctime = ''noon''\<rparr>,
               call_args = [''b''], call_level = PInt INFO,
               call_loggername = None, call_timestamp = None\<rparr>,
              \<lparr>call_ctx = \<lparr>is_main_thread = False, thread_ident = 9, caller = ''work'',
                           asctime = ''noon''\<rparr>,
               call_args = [''c''], call_level = PInt ERROR,
               call_loggername = None, call_timestamp = None\<rparr>]
            (module_state False))))))
     = ''noon - work - DEBUG - 2 - d''"
proof -
  let ?c7 = "\<lparr>call_ctx = \<lparr>is_main_thread = False, thread_ident = 7, caller = ''work'',
                           asctime = ''noon''\<rparr>,
               call_args = [''a''], call_level = PInt INFO,
               call_loggername = None, call_timestamp = None\<rparr>"
  let ?cM = "\<lparr>call_ctx = \<lparr>is_main_thread = True, thread_ident = 1, caller = ''load'',
                           asctime = ''noon''\<rparr>,
               call_args = [''b''], call_level = PInt INFO,
               call_loggername = None, call_timestamp = None\<rparr>"
  let ?c9 = "\<lparr>call_ctx = \<lparr>is_main_thread = False, thread_ident = 9, caller = ''work'',
                           asctime = ''noon''\<rparr>,
               call_args = [''c''], call_level = PInt ERROR,
               call_loggername = None, call_timestamp = None\<rparr>"
  let ?c = "\<lparr>call_ctx = \<lparr>is_main_thread = False, thread_ident = 9, caller = ''work'',
                     asctime = ''noon''\<rparr>,
          call_args = [''d''], call_level = PInt DEBUG,
          call_loggername = None, call_timestamp = None\<rparr>"
  have i: "thread_count (module_state False) = 0" "threadIds (module_state False) = Map.empty"
    by (simp_all add: module_state_def)
  have seen: "first_seen [?c7, ?cM, ?c9] [] = [7, 9]"
    by (simp add: labelled_def levels_def)
  have two: "str_int 2 = ''2''"
    by (simp add: str_int_def str_nat.simps digit_char_def)
  have line: "line_with ?c ''2'' = ''noon - work - DEBUG - 2 - d''"
    by (simp add: line_with_def spec_line_def stamp_def channel_def levelname_of_def levels_def)
  have hyp: "recognised (call_level ?c) \<and> \<not> is_main_thread (call_ctx ?c)
      \<and> 1 < length (first_seen [?c7, ?cM, ?c9] [])
      \<and> first_seen [?c7, ?cM, ?c9] [] ! 1 = thread_ident (call_ctx ?c)"
    unfolding seen by (simp add: recognised_def)
  from thread_labels_first_come[OF i, of "[?c7, ?cM, ?c9]" ?c 1] hyp
  have "registry_is (run [?c7, ?cM, ?c9] (module_state False)) (first_seen [?c7, ?cM, ?c9] [])
      \<and> message (last (out_log (snd (do_call ?c (run [?c7, ?cM, ?c9] (module_state False))))))
          = line_with ?c (str_int (int 1 + 1))"
    by blast
  then show ?thesis
    unfolding seen using i two line by simp
qed

end
